theory Spec2Isabelle
  imports Complex_Main
begin

section \<open>Dynamic values and Go maps\<close>

text \<open>
  The handlers of \<^verbatim>\<open>plugin.go\<close> work on \<^verbatim>\<open>map[string]interface{}\<close>. The dynamic
  values such a map holds are modelled by \<open>iface\<close>: the six shapes \<^verbatim>\<open>encoding/json\<close>
  decodes into an \<^verbatim>\<open>interface{}\<close> (nil, bool, float64, string, slice, map) and the Go
  \<^verbatim>\<open>int\<close> that the second priority assertion of \<^verbatim>\<open>handleGenericWebhook\<close> tests for.
  A finite float64 is a rational number, so \<open>VFloat64\<close> carries a \<open>rat\<close>; JSON has no
  NaN and no infinity. A Go string is a byte sequence, as \<open>string\<close> is.
\<close>

datatype iface =
    VNil
  | VBool bool
  | VFloat64 rat
  | VInt int
  | VString string
  | VSlice "iface list"
  | VMap "string \<Rightarrow> iface option"

type_synonym gomap = "string \<Rightarrow> iface option"

text \<open>The comma-ok type assertions \<^verbatim>\<open>m[k].(T)\<close>: \<open>None\<close> is \<^verbatim>\<open>ok == false\<close>, also when
  the key is missing (the lookup then yields the nil interface).\<close>

definition assert_string :: "iface option \<Rightarrow> string option" where
  "assert_string x = (case x of Some (VString s) \<Rightarrow> Some s | _ \<Rightarrow> None)"

definition assert_float64 :: "iface option \<Rightarrow> rat option" where
  "assert_float64 x = (case x of Some (VFloat64 f) \<Rightarrow> Some f | _ \<Rightarrow> None)"

definition assert_int :: "iface option \<Rightarrow> int option" where
  "assert_int x = (case x of Some (VInt n) \<Rightarrow> Some n | _ \<Rightarrow> None)"

definition assert_map :: "iface option \<Rightarrow> gomap option" where
  "assert_map x = (case x of Some (VMap m) \<Rightarrow> Some m | _ \<Rightarrow> None)"

text \<open>Values that a JSON document decodes to: everything but a Go \<^verbatim>\<open>int\<close>.\<close>

definition is_json_number :: "iface \<Rightarrow> bool" where
  "is_json_number v = (case v of VFloat64 _ \<Rightarrow> True | _ \<Rightarrow> False)"

definition is_go_int :: "iface \<Rightarrow> bool" where
  "is_go_int v = (case v of VInt _ \<Rightarrow> True | _ \<Rightarrow> False)"

section \<open>The conversion \<^verbatim>\<open>int(priority)\<close>\<close>

text \<open>
  Go discards the fraction of a float64 converted to \<^verbatim>\<open>int\<close> (truncation toward zero,
  \<open>trunc\<close>). When the truncated value does not fit \<^verbatim>\<open>int\<close> the conversion still
  succeeds, with a result that depends on the platform: the x86 conversion instructions
  return the smallest integer, the ARM ones saturate. \<^verbatim>\<open>int\<close> is 32 or 64 bits wide.
  The platform is a parameter of the model, and the properties below hold for each.
\<close>

datatype int_size = Int32 | Int64

datatype conv_overflow = IntegerIndefinite | Saturating

record platform =
  intSize :: int_size
  convOverflow :: conv_overflow

definition max_int :: "platform \<Rightarrow> int" where
  "max_int pf = (case intSize pf of Int32 \<Rightarrow> 2147483647 | Int64 \<Rightarrow> 9223372036854775807)"

definition min_int :: "platform \<Rightarrow> int" where
  "min_int pf = - max_int pf - 1"

definition trunc :: "rat \<Rightarrow> int" where
  "trunc q = (if 0 \<le> q then \<lfloor>q\<rfloor> else \<lceil>q\<rceil>)"

definition int_of_float64 :: "platform \<Rightarrow> rat \<Rightarrow> int" where
  "int_of_float64 pf q =
     (let t = trunc q in
      if min_int pf \<le> t \<and> t \<le> max_int pf then t
      else (case convOverflow pf of
              IntegerIndefinite \<Rightarrow> min_int pf
            | Saturating \<Rightarrow> if t < 0 then min_int pf else max_int pf))"

section \<open>Messages, the message handler and responses\<close>

text \<open>\<^verbatim>\<open>plugin.Message\<close>. \<open>Extras\<close> is a Go map that may be nil: \<open>None\<close> is the nil map.\<close>

record plugin_Message =
  Title :: string
  Message :: string
  Priority :: int
  Extras :: "gomap option"

text \<open>Reading a key of a map that may be nil: a nil map has no keys.\<close>

definition extras_lookup :: "gomap option \<Rightarrow> string \<Rightarrow> iface option" where
  "extras_lookup e k = (case e of None \<Rightarrow> None | Some m \<Rightarrow> m k)"

text \<open>\<^verbatim>\<open>plugin.MessageHandler\<close>: \<^verbatim>\<open>SendMessage\<close> returns nil (\<open>None\<close>) or an error, kept
  as the text of its \<^verbatim>\<open>Error()\<close>. The plugin's \<open>msgHandler\<close> is nil until the host sets it.
  The handlers themselves have no operation that panics (every type assertion is of the
  comma-ok form), so their deferred \<^verbatim>\<open>recover\<close> only matters when \<^verbatim>\<open>SendMessage\<close> or gin
  panics, which is outside this model.\<close>

type_synonym MessageHandler = "plugin_Message \<Rightarrow> string option"

record WebhookForwarderPlugin =
  msgHandler :: "MessageHandler option"
  userCtx :: string

text \<open>What one run of a handler does: the one \<^verbatim>\<open>c.JSON(status, obj)\<close> it performs and the
  messages it passed to \<^verbatim>\<open>SendMessage\<close>, in order.\<close>

record response =
  status :: nat
  json :: gomap

record outcome =
  resp :: response
  sent :: "plugin_Message list"

abbreviation StatusOK :: nat where "StatusOK \<equiv> 200"
abbreviation StatusBadRequest :: nat where "StatusBadRequest \<equiv> 400"
abbreviation StatusInternalServerError :: nat where "StatusInternalServerError \<equiv> 500"
abbreviation StatusServiceUnavailable :: nat where "StatusServiceUnavailable \<equiv> 503"

definition reply :: "nat \<Rightarrow> gomap \<Rightarrow> plugin_Message list \<Rightarrow> outcome" where
  "reply st obj msgs = \<lparr>resp = \<lparr>status = st, json = obj\<rparr>, sent = msgs\<rparr>"

section \<open>\<^verbatim>\<open>handleGenericWebhook\<close>\<close>

text \<open>A string field of a struct that starts at its zero value \<^verbatim>\<open>""\<close> and is assigned
  only when the assertion holds:
  \<^verbatim>\<open>if v, ok := rawBody[k].(string); ok { x = v }\<close>.\<close>

definition string_field :: "gomap \<Rightarrow> string \<Rightarrow> string" where
  "string_field rawBody k = (case assert_string (rawBody k) of Some v \<Rightarrow> v | None \<Rightarrow> '''')"

text \<open>\<^verbatim>\<open>webhookMsg.Priority\<close> after the two assertions on \<^verbatim>\<open>rawBody["priority"]\<close>
  (float64 first, then int); 0 when neither holds.\<close>

definition priority_field :: "platform \<Rightarrow> gomap \<Rightarrow> int" where
  "priority_field pf rawBody =
     (case assert_float64 (rawBody ''priority'') of
        Some priority \<Rightarrow> int_of_float64 pf priority
      | None \<Rightarrow> (case assert_int (rawBody ''priority'') of
                   Some priority \<Rightarrow> priority
                 | None \<Rightarrow> 0))"

text \<open>The block "Forward message to Gotify user" of \<^verbatim>\<open>handleGenericWebhook\<close> with the
  final \<^verbatim>\<open>c.JSON\<close>.\<close>

definition forward_generic :: "WebhookForwarderPlugin \<Rightarrow> plugin_Message \<Rightarrow> outcome" where
  "forward_generic p msg =
     (case msgHandler p of
        Some h \<Rightarrow>
          (case h msg of
             Some err \<Rightarrow>
               reply StatusInternalServerError
                 [''error'' \<mapsto> VString ''Failed to forward message'',
                  ''details'' \<mapsto> VString err] [msg]
           | None \<Rightarrow>
               reply StatusOK
                 [''success'' \<mapsto> VBool True,
                  ''message'' \<mapsto> VString ''Message forwarded successfully''] [msg])
      | None \<Rightarrow>
          reply StatusServiceUnavailable
            [''error'' \<mapsto> VString ''Message handler not available''] [])"

definition handleGenericWebhook :: "platform \<Rightarrow> WebhookForwarderPlugin \<Rightarrow> gomap \<Rightarrow> outcome" where
  "handleGenericWebhook pf p rawBody =
     (let wTitle = string_field rawBody ''title'';
          wMessage = string_field rawBody ''message'';
          wPriority = priority_field pf rawBody;
          wExtras = assert_map (rawBody ''extras'')
      in
      if wMessage = '''' then
        reply StatusBadRequest [''error'' \<mapsto> VString ''Message field is required''] []
      else
        let wTitle = (if wTitle = '''' then ''Webhook Message'' else wTitle);
            wPriority = (if wPriority \<le> 0 \<or> wPriority > 10 then 5 else wPriority)
        in forward_generic p
             \<lparr>Title = wTitle, Message = wMessage, Priority = wPriority, Extras = wExtras\<rparr>)"

section \<open>\<^verbatim>\<open>handleGrafanaWebhook\<close>\<close>

text \<open>An URL is copied into the extras when the payload has it as a non-empty string:
  \<^verbatim>\<open>if u, ok := rawBody[k].(string); ok && u != "" { extras[k] = u }\<close>.\<close>

definition copy_url :: "gomap \<Rightarrow> string \<Rightarrow> gomap \<Rightarrow> gomap" where
  "copy_url rawBody k extras =
     (case assert_string (rawBody k) of
        Some u \<Rightarrow> if u \<noteq> '''' then extras(k \<mapsto> VString u) else extras
      | None \<Rightarrow> extras)"

text \<open>The block "Forward message to Gotify user" of \<^verbatim>\<open>handleGrafanaWebhook\<close> with the
  final \<^verbatim>\<open>c.JSON\<close>.\<close>

definition forward_grafana :: "WebhookForwarderPlugin \<Rightarrow> plugin_Message \<Rightarrow> outcome" where
  "forward_grafana p msg =
     (case msgHandler p of
        Some h \<Rightarrow>
          (case h msg of
             Some err \<Rightarrow>
               reply StatusInternalServerError
                 [''error'' \<mapsto> VString ''Failed to forward Grafana alert'',
                  ''details'' \<mapsto> VString err] [msg]
           | None \<Rightarrow>
               reply StatusOK
                 [''success'' \<mapsto> VBool True,
                  ''message'' \<mapsto> VString ''Grafana alert forwarded successfully'',
                  ''type'' \<mapsto> VString ''grafana''] [msg])
      | None \<Rightarrow>
          reply StatusServiceUnavailable
            [''error'' \<mapsto> VString ''Message handler not available''] [])"

definition handleGrafanaWebhook :: "WebhookForwarderPlugin \<Rightarrow> gomap \<Rightarrow> outcome" where
  "handleGrafanaWebhook p rawBody =
     (let gTitle = string_field rawBody ''title'';
          gMessage = string_field rawBody ''message'';
          gStatus = string_field rawBody ''status'';
          gState = string_field rawBody ''state'';
          priority = (if gStatus = ''firing'' \<or> gState = ''alerting'' then 8
                      else if gStatus = ''resolved'' \<or> gState = ''ok'' then 3
                      else 5);
          title = (if gTitle = '''' then
                     (if gStatus \<noteq> '''' then ''Grafana Alert: '' @ gStatus
                      else ''Grafana Alert'')
                   else gTitle);
          message = (if gMessage = '''' then ''Alert notification from Grafana'' else gMessage);
          extras = [''source'' \<mapsto> VString ''grafana''];
          extras = (if gStatus \<noteq> '''' then extras(''status'' \<mapsto> VString gStatus) else extras);
          extras = (if gState \<noteq> '''' then extras(''state'' \<mapsto> VString gState) else extras);
          extras = copy_url rawBody ''externalURL'' extras;
          extras = copy_url rawBody ''dashboardURL'' extras;
          extras = copy_url rawBody ''silenceURL'' extras
      in forward_grafana p
           \<lparr>Title = title, Message = message, Priority = priority, Extras = Some extras\<rparr>)"

section \<open>\<^verbatim>\<open>handleWebhookMessage\<close>\<close>

text \<open>
  The request as the handler reads it. \<open>ContentType\<close> is the request's Content-Type header:
  \<open>None\<close> when the request has none, else its (first) value. gin's \<^verbatim>\<open>c.GetHeader\<close>
  returns the value, and the empty string for a missing header.

  \<^verbatim>\<open>c.ShouldBindJSON(&rawBody)\<close> belongs to gin and is a parameter: from the body's
  bytes it gives an error (\<open>Inl\<close>, the text of \<^verbatim>\<open>err.Error()\<close>) or leaves \<^verbatim>\<open>rawBody\<close>
  nil (\<open>Inr None\<close>, the body \<^verbatim>\<open>null\<close>) or set to the decoded object.
\<close>

record request =
  ContentType :: "string option"
  Body :: string

definition GetHeader :: "string option \<Rightarrow> string" where
  "GetHeader h = (case h of None \<Rightarrow> '''' | Some v \<Rightarrow> v)"

type_synonym json_decoder = "string \<Rightarrow> string + gomap option"

definition handleWebhookMessage ::
    "platform \<Rightarrow> json_decoder \<Rightarrow> WebhookForwarderPlugin \<Rightarrow> request \<Rightarrow> outcome" where
  "handleWebhookMessage pf ShouldBindJSON p c =
     (let contentType = GetHeader (ContentType c) in
      if contentType \<noteq> ''application/json'' \<and> contentType \<noteq> '''' then
        reply StatusBadRequest [''error'' \<mapsto> VString ''Content-Type must be application/json''] []
      else
        case ShouldBindJSON (Body c) of
          Inl err \<Rightarrow>
            reply StatusBadRequest
              [''error'' \<mapsto> VString ''Invalid JSON payload'', ''details'' \<mapsto> VString err] []
        | Inr None \<Rightarrow>
            reply StatusBadRequest [''error'' \<mapsto> VString ''Empty request body''] []
        | Inr (Some rawBody) \<Rightarrow>
            if rawBody ''alerts'' \<noteq> None then handleGrafanaWebhook p rawBody
            else handleGenericWebhook pf p rawBody)"

section \<open>The test double of \<^verbatim>\<open>plugin_test.go\<close> and example inputs\<close>

text \<open>\<^verbatim>\<open>MockMessageHandler\<close>: \<^verbatim>\<open>SendMessage\<close> fails with \<^verbatim>\<open>assert.AnError\<close> when
  \<^verbatim>\<open>shouldFail\<close> is set, and accepts the message otherwise.\<close>

definition MockMessageHandler :: "bool \<Rightarrow> MessageHandler" where
  "MockMessageHandler shouldFail msg =
     (if shouldFail then Some ''assert.AnError general error for testing'' else None)"

definition test_plugin :: "bool \<Rightarrow> WebhookForwarderPlugin" where
  "test_plugin shouldFail =
     \<lparr>msgHandler = Some (MockMessageHandler shouldFail), userCtx = ''testuser''\<rparr>"

text \<open>A plugin whose message handler was never set.\<close>

definition bare_plugin :: WebhookForwarderPlugin where
  "bare_plugin = \<lparr>msgHandler = None, userCtx = ''testuser''\<rparr>"

definition amd64 :: platform where
  "amd64 = \<lparr>intSize = Int64, convOverflow = IntegerIndefinite\<rparr>"

definition arm7 :: platform where
  "arm7 = \<lparr>intSize = Int32, convOverflow = Saturating\<rparr>"

text \<open>A decoder that yields the given object whatever the body, and one that rejects
  every body.\<close>

definition decoded_as :: "gomap \<Rightarrow> json_decoder" where
  "decoded_as rawBody body = Inr (Some rawBody)"

definition undecodable :: json_decoder where
  "undecodable body = Inl ''invalid character''"

definition request_with :: "string option \<Rightarrow> request" where
  "request_with ct = \<lparr>ContentType = ct, Body = ''body''\<rparr>"

text \<open>Payloads: those of the tests, and variations of them.\<close>

definition message_only :: gomap where
  "message_only = [''message'' \<mapsto> VString ''Test Message'']"

definition title_only :: gomap where
  "title_only = [''title'' \<mapsto> VString ''Title Only'']"

definition empty_message :: gomap where
  "empty_message = [''title'' \<mapsto> VString ''Title Only'', ''message'' \<mapsto> VString '''']"

definition numeric_message :: gomap where
  "numeric_message = [''message'' \<mapsto> VFloat64 42]"

definition with_priority :: "iface \<Rightarrow> gomap" where
  "with_priority v = [''message'' \<mapsto> VString ''Test Message'', ''priority'' \<mapsto> v]"

definition with_source_extras :: gomap where
  "with_source_extras =
     [''message'' \<mapsto> VString ''Test Message'',
      ''extras'' \<mapsto> VMap [''source'' \<mapsto> VString ''elsewhere'']]"

definition null_alerts :: gomap where
  "null_alerts = [''alerts'' \<mapsto> VNil]"

definition grafana_with :: "string \<Rightarrow> string \<Rightarrow> iface \<Rightarrow> gomap" where
  "grafana_with st sta alerts =
     [''status'' \<mapsto> VString st, ''state'' \<mapsto> VString sta, ''alerts'' \<mapsto> alerts]"

definition grafana_extended :: gomap where
  "grafana_extended =
     (grafana_with ''firing'' ''alerting'' (VSlice [VNil]))(''receiver'' \<mapsto> VString ''ops'')"

section \<open>Auxiliary facts\<close>

lemma assert_string_Some_iff: "assert_string x = Some s \<longleftrightarrow> x = Some (VString s)"
  by (simp add: assert_string_def split: option.splits iface.splits)

lemma assert_string_VString: "assert_string (Some (VString s)) = Some s"
  by (simp add: assert_string_def)

lemma assert_string_None: "assert_string None = None"
  by (simp add: assert_string_def)

lemma string_field_eq_iff:
  "s \<noteq> '''' \<Longrightarrow> string_field rawBody k = s \<longleftrightarrow> rawBody k = Some (VString s)"
  by (auto simp: string_field_def assert_string_Some_iff assert_string_VString
        split: option.splits)

lemma string_field_VString: "rawBody k = Some (VString s) \<Longrightarrow> string_field rawBody k = s"
  by (simp add: string_field_def assert_string_def)

lemma string_field_empty_iff:
  "string_field rawBody k = '''' \<longleftrightarrow> (\<forall>s. rawBody k = Some (VString s) \<longrightarrow> s = '''')"
  by (auto simp: string_field_def assert_string_Some_iff assert_string_VString
        split: option.splits)

lemma int_bounds: "min_int pf \<le> 0" "10 < max_int pf"
  by (cases "intSize pf"; simp add: min_int_def max_int_def)+

lemma int_of_float64_clamp:
  "(if int_of_float64 pf q \<le> 0 \<or> int_of_float64 pf q > 10 then 5 else int_of_float64 pf q)
   = (if trunc q \<le> 0 \<or> trunc q > 10 then 5 else trunc q)"
  using int_bounds[of pf]
  by (cases "convOverflow pf") (auto simp: int_of_float64_def Let_def)

lemma sent_reply: "sent (reply st obj msgs) = msgs"
  by (simp add: reply_def)

lemma resp_reply: "resp (reply st obj msgs) = \<lparr>status = st, json = obj\<rparr>"
  by (simp add: reply_def)

lemma sent_forward_generic:
  "sent (forward_generic p msg) = (case msgHandler p of None \<Rightarrow> [] | Some h \<Rightarrow> [msg])"
  by (simp add: forward_generic_def sent_reply split: option.splits)

lemma sent_forward_grafana:
  "sent (forward_grafana p msg) = (case msgHandler p of None \<Rightarrow> [] | Some h \<Rightarrow> [msg])"
  by (simp add: forward_grafana_def sent_reply split: option.splits)

lemma generic_rejected:
  assumes "string_field rawBody ''message'' = ''''"
  shows "handleGenericWebhook pf p rawBody =
           reply StatusBadRequest [''error'' \<mapsto> VString ''Message field is required''] []"
  using assms by (simp add: handleGenericWebhook_def Let_def)

lemma generic_accepted:
  assumes "string_field rawBody ''message'' \<noteq> ''''"
  shows "handleGenericWebhook pf p rawBody =
           forward_generic p
             \<lparr>Title = (if string_field rawBody ''title'' = '''' then ''Webhook Message''
                       else string_field rawBody ''title''),
              Message = string_field rawBody ''message'',
              Priority = (if priority_field pf rawBody \<le> 0 \<or> priority_field pf rawBody > 10
                          then 5 else priority_field pf rawBody),
              Extras = assert_map (rawBody ''extras'')\<rparr>"
  using assms by (simp add: handleGenericWebhook_def Let_def)

lemma sent_generic:
  "sent (handleGenericWebhook pf p rawBody) =
     (if string_field rawBody ''message'' = '''' \<or> msgHandler p = None then []
      else [\<lparr>Title = (if string_field rawBody ''title'' = '''' then ''Webhook Message''
                       else string_field rawBody ''title''),
              Message = string_field rawBody ''message'',
              Priority = (if priority_field pf rawBody \<le> 0 \<or> priority_field pf rawBody > 10
                          then 5 else priority_field pf rawBody),
              Extras = assert_map (rawBody ''extras'')\<rparr>])"
  by (cases "string_field rawBody ''message'' = ''''")
     (auto simp: generic_rejected generic_accepted sent_reply sent_forward_generic)

lemma sent_grafana_length:
  "length (sent (handleGrafanaWebhook p rawBody)) = (case msgHandler p of None \<Rightarrow> 0 | Some h \<Rightarrow> 1)"
  by (simp add: handleGrafanaWebhook_def Let_def sent_forward_grafana split: option.splits)

lemma priority_of_grafana_message:
  "msgHandler p = Some h \<Longrightarrow>
   map Priority (sent (handleGrafanaWebhook p rawBody)) =
     [if string_field rawBody ''status'' = ''firing'' \<or> string_field rawBody ''state'' = ''alerting''
      then 8
      else if string_field rawBody ''status'' = ''resolved'' \<or> string_field rawBody ''state'' = ''ok''
      then 3 else 5]"
  by (simp add: handleGrafanaWebhook_def Let_def sent_forward_grafana)

lemma priority_field_cases:
  "rawBody ''priority'' = Some (VFloat64 q) \<Longrightarrow> priority_field pf rawBody = int_of_float64 pf q"
  "rawBody ''priority'' = Some (VInt n) \<Longrightarrow> priority_field pf rawBody = n"
  "rawBody ''priority'' = None \<Longrightarrow> priority_field pf rawBody = 0"
  "rawBody ''priority'' = Some v \<Longrightarrow> \<not> is_json_number v \<Longrightarrow> \<not> is_go_int v \<Longrightarrow>
     priority_field pf rawBody = 0"
  by (auto simp: priority_field_def assert_float64_def assert_int_def is_json_number_def
      is_go_int_def split: iface.splits)

lemma copy_url_other: "k' \<noteq> k \<Longrightarrow> copy_url rawBody k extras k' = extras k'"
  by (simp add: copy_url_def split: option.splits)

lemma sent_grafana:
  "m \<in> set (sent (handleGrafanaWebhook p rawBody)) \<Longrightarrow>
     Priority m \<in> {3, 5, 8} \<and> Message m \<noteq> '''' \<and>
     extras_lookup (Extras m) ''source'' = Some (VString ''grafana'')"
  by (auto simp: handleGrafanaWebhook_def Let_def sent_forward_grafana extras_lookup_def
      copy_url_other split: option.splits if_splits)

lemma sent_generic_props:
  assumes "m \<in> set (sent (handleGenericWebhook pf p rawBody))"
  shows "1 \<le> Priority m \<and> Priority m \<le> 10 \<and> Message m \<noteq> '''' \<and>
         Extras m = assert_map (rawBody ''extras'')"
  using assms by (auto simp: sent_generic split: if_splits)

lemma forward_generic_outcome:
  "(msgHandler p = None \<longrightarrow>
      forward_generic p msg =
        reply StatusServiceUnavailable [''error'' \<mapsto> VString ''Message handler not available''] [])
   \<and> (\<forall>h. msgHandler p = Some h \<longrightarrow>
      sent (forward_generic p msg) = [msg] \<and>
      (\<forall>e. h msg = Some e \<longrightarrow>
         status (resp (forward_generic p msg)) = StatusInternalServerError \<and>
         json (resp (forward_generic p msg)) ''details'' = Some (VString e)) \<and>
      (h msg = None \<longrightarrow>
         status (resp (forward_generic p msg)) = StatusOK \<and>
         json (resp (forward_generic p msg)) ''success'' = Some (VBool True) \<and>
         json (resp (forward_generic p msg)) ''type'' = None))"
  by (auto simp: forward_generic_def reply_def split: option.splits)

lemma forward_grafana_outcome:
  "(msgHandler p = None \<longrightarrow>
      forward_grafana p msg =
        reply StatusServiceUnavailable [''error'' \<mapsto> VString ''Message handler not available''] [])
   \<and> (\<forall>h. msgHandler p = Some h \<longrightarrow>
      sent (forward_grafana p msg) = [msg] \<and>
      (\<forall>e. h msg = Some e \<longrightarrow>
         status (resp (forward_grafana p msg)) = StatusInternalServerError \<and>
         json (resp (forward_grafana p msg)) ''details'' = Some (VString e)) \<and>
      (h msg = None \<longrightarrow>
         status (resp (forward_grafana p msg)) = StatusOK \<and>
         json (resp (forward_grafana p msg)) ''success'' = Some (VBool True) \<and>
         json (resp (forward_grafana p msg)) ''type'' = Some (VString ''grafana'')))"
  by (auto simp: forward_grafana_def reply_def split: option.splits)

lemma grafana_is_forward: "\<exists>msg. handleGrafanaWebhook p rawBody = forward_grafana p msg"
  unfolding handleGrafanaWebhook_def Let_def by (rule exI) (rule refl)

lemma generic_is_forward:
  assumes "rawBody ''message'' = Some (VString s)" and "s \<noteq> ''''"
  shows "\<exists>msg. handleGenericWebhook pf p rawBody = forward_generic p msg"
proof -
  have "string_field rawBody ''message'' \<noteq> ''''"
    using assms by (simp add: string_field_VString)
  from generic_accepted [OF this] show ?thesis by blast
qed

section \<open>Properties of the handlers\<close>

subsection \<open>Classification by the key alerts\<close>

text \<open>
  C1. A request that passes the Content-Type check and whose body decodes to the object
  \<open>rawBody\<close> is handled by \<^verbatim>\<open>handleGrafanaWebhook\<close> when \<open>rawBody\<close> has a key
  \<^verbatim>\<open>alerts\<close>, whatever value \<open>v\<close> the key holds (null, a non-array, the empty array),
  and by \<^verbatim>\<open>handleGenericWebhook\<close> when it has no such key.
\<close>

theorem classification_by_alerts_key:
  assumes "ContentType c = None \<or> ContentType c = Some '''' \<or>
           ContentType c = Some ''application/json''"
    and "decode (Body c) = Inr (Some rawBody)"
  shows "(\<forall>v. rawBody ''alerts'' = Some v \<longrightarrow>
            handleWebhookMessage pf decode p c = handleGrafanaWebhook p rawBody) \<and>
         (rawBody ''alerts'' = None \<longrightarrow>
            handleWebhookMessage pf decode p c = handleGenericWebhook pf p rawBody)"
  using assms by (auto simp: handleWebhookMessage_def GetHeader_def Let_def)

theorem classification_by_alerts_key_witness:
  "(ContentType (request_with None) = None \<or>
      ContentType (request_with None) = Some '''' \<or>
      ContentType (request_with None) = Some ''application/json'') \<and>
   decoded_as null_alerts (Body (request_with None)) = Inr (Some null_alerts) \<and>
   null_alerts ''alerts'' = Some VNil \<and>
   handleWebhookMessage amd64 (decoded_as null_alerts) (test_plugin False) (request_with None)
     = handleGrafanaWebhook (test_plugin False) null_alerts \<and>
   decoded_as message_only (Body (request_with None)) = Inr (Some message_only) \<and>
   message_only ''alerts'' = None \<and>
   handleWebhookMessage amd64 (decoded_as message_only) (test_plugin False) (request_with None)
     = handleGenericWebhook amd64 (test_plugin False) message_only"
proof -
  have c: "ContentType (request_with None) = None \<or>
           ContentType (request_with None) = Some '''' \<or>
           ContentType (request_with None) = Some ''application/json''"
    by (simp add: request_with_def)
  have d1: "decoded_as null_alerts (Body (request_with None)) = Inr (Some null_alerts)"
    and d2: "decoded_as message_only (Body (request_with None)) = Inr (Some message_only)"
    by (simp_all add: decoded_as_def)
  have a1: "null_alerts ''alerts'' = Some VNil" by (simp add: null_alerts_def)
  have a2: "message_only ''alerts'' = None" by (simp add: message_only_def)
  show ?thesis
    using c d1 d2 a1 a2
      classification_by_alerts_key [where c = "request_with None"
        and decode = "decoded_as null_alerts" and rawBody = null_alerts
        and pf = amd64 and p = "test_plugin False", OF c d1]
      classification_by_alerts_key [where c = "request_with None"
        and decode = "decoded_as message_only" and rawBody = message_only
        and pf = amd64 and p = "test_plugin False", OF c d2]
    by simp
qed

subsection \<open>The generic path requires a message\<close>

text \<open>
  C2. On the generic path, a payload whose \<^verbatim>\<open>message\<close> is a non-empty string \<open>s\<close> passes
  validation: the response is not the 400 of the missing field, and a configured handler
  receives exactly one message, whose body is \<open>s\<close>. A payload without \<^verbatim>\<open>message\<close>, or
  whose \<^verbatim>\<open>message\<close> is not a string, gets the response 400 "Message field is required",
  and nothing is sent.
\<close>

theorem generic_message_required:
  "(\<forall>s. rawBody ''message'' = Some (VString s) \<and> s \<noteq> '''' \<longrightarrow>
      handleGenericWebhook pf p rawBody \<noteq>
        reply StatusBadRequest [''error'' \<mapsto> VString ''Message field is required''] [] \<and>
      status (resp (handleGenericWebhook pf p rawBody)) \<noteq> StatusBadRequest \<and>
      (\<forall>h. msgHandler p = Some h \<longrightarrow>
         map Message (sent (handleGenericWebhook pf p rawBody)) = [s])) \<and>
   (rawBody ''message'' = None \<or>
    (\<exists>v. rawBody ''message'' = Some v \<and> (\<forall>s. v \<noteq> VString s)) \<longrightarrow>
      handleGenericWebhook pf p rawBody =
        reply StatusBadRequest [''error'' \<mapsto> VString ''Message field is required''] [])"
proof (intro conjI allI impI)
  fix s assume a: "rawBody ''message'' = Some (VString s) \<and> s \<noteq> ''''"
  then have f: "string_field rawBody ''message'' = s" and ne: "s \<noteq> ''''"
    by (simp_all add: string_field_VString)
  have st: "status (resp (handleGenericWebhook pf p rawBody)) \<noteq> StatusBadRequest"
    using f ne
    by (simp add: generic_accepted forward_generic_def resp_reply split: option.splits)
  then show "status (resp (handleGenericWebhook pf p rawBody)) \<noteq> StatusBadRequest" .
  from st show "handleGenericWebhook pf p rawBody \<noteq>
        reply StatusBadRequest [''error'' \<mapsto> VString ''Message field is required''] []"
    by (auto simp: resp_reply)
  fix h assume "msgHandler p = Some h"
  then show "map Message (sent (handleGenericWebhook pf p rawBody)) = [s]"
    using f ne by (simp add: sent_generic)
next
  assume "rawBody ''message'' = None \<or>
    (\<exists>v. rawBody ''message'' = Some v \<and> (\<forall>s. v \<noteq> VString s))"
  then have "string_field rawBody ''message'' = ''''"
    by (auto simp: string_field_empty_iff)
  then show "handleGenericWebhook pf p rawBody =
        reply StatusBadRequest [''error'' \<mapsto> VString ''Message field is required''] []"
    by (rule generic_rejected)
qed

theorem generic_message_required_witness:
  "message_only ''message'' = Some (VString ''Test Message'') \<and> ''Test Message'' \<noteq> '''' \<and>
   msgHandler (test_plugin False) = Some (MockMessageHandler False) \<and>
   status (resp (handleGenericWebhook amd64 (test_plugin False) message_only))
     \<noteq> StatusBadRequest \<and>
   map Message (sent (handleGenericWebhook amd64 (test_plugin False) message_only))
     = [''Test Message''] \<and>
   title_only ''message'' = None \<and>
   handleGenericWebhook amd64 (test_plugin False) title_only =
     reply StatusBadRequest [''error'' \<mapsto> VString ''Message field is required''] [] \<and>
   numeric_message ''message'' = Some (VFloat64 42) \<and>
   handleGenericWebhook amd64 (test_plugin False) numeric_message =
     reply StatusBadRequest [''error'' \<mapsto> VString ''Message field is required''] []"
proof -
  have m: "message_only ''message'' = Some (VString ''Test Message'')"
    by (simp add: message_only_def)
  have h: "msgHandler (test_plugin False) = Some (MockMessageHandler False)"
    by (simp add: test_plugin_def)
  have t: "title_only ''message'' = None"
    by (simp add: title_only_def)
  have n: "numeric_message ''message'' = Some (VFloat64 42)"
    by (simp add: numeric_message_def)
  show ?thesis
    using m h t n
      generic_message_required [of message_only amd64 "test_plugin False"]
      generic_message_required [of title_only amd64 "test_plugin False"]
      generic_message_required [of numeric_message amd64 "test_plugin False"]
    by simp
qed

subsection \<open>Priority on the Grafana path\<close>

text \<open>
  C3. On the Grafana path the priority of the message sent is 8 when \<^verbatim>\<open>status\<close> is
  "firing" or \<^verbatim>\<open>state\<close> is "alerting"; otherwise 3 when \<^verbatim>\<open>status\<close> is "resolved" or
  \<^verbatim>\<open>state\<close> is "ok"; otherwise 5. The first rule is tried first, so status "resolved"
  with state "alerting" gives 8.
\<close>

theorem grafana_priority:
  assumes "msgHandler p = Some h"
  shows "map Priority (sent (handleGrafanaWebhook p rawBody)) =
     [if rawBody ''status'' = Some (VString ''firing'') \<or>
         rawBody ''state'' = Some (VString ''alerting'') then 8
      else if rawBody ''status'' = Some (VString ''resolved'') \<or>
              rawBody ''state'' = Some (VString ''ok'') then 3
      else 5]"
  using priority_of_grafana_message[OF assms, of rawBody]
  by (simp only: string_field_eq_iff list.simps(3) not_False_eq_True)

theorem grafana_priority_witness:
  "msgHandler (test_plugin False) = Some (MockMessageHandler False) \<and>
   map Priority (sent (handleGrafanaWebhook (test_plugin False)
                         (grafana_with ''resolved'' ''alerting'' (VSlice [])))) = [8] \<and>
   map Priority (sent (handleGrafanaWebhook (test_plugin False)
                         (grafana_with ''resolved'' ''pending'' (VSlice [])))) = [3] \<and>
   map Priority (sent (handleGrafanaWebhook (test_plugin False)
                         (grafana_with ''pending'' ''ok'' (VSlice [])))) = [3] \<and>
   map Priority (sent (handleGrafanaWebhook (test_plugin False) null_alerts)) = [5]"
proof -
  have h: "msgHandler (test_plugin False) = Some (MockMessageHandler False)"
    by (simp add: test_plugin_def)
  show ?thesis
    using h grafana_priority [OF h, of "grafana_with ''resolved'' ''alerting'' (VSlice [])"]
      grafana_priority [OF h, of "grafana_with ''resolved'' ''pending'' (VSlice [])"]
      grafana_priority [OF h, of "grafana_with ''pending'' ''ok'' (VSlice [])"]
      grafana_priority [OF h, of null_alerts]
    by (simp add: grafana_with_def null_alerts_def)
qed

subsection \<open>Priority on the generic path\<close>

text \<open>
  C4. On the generic path, for a payload that is delivered: a JSON number \<^verbatim>\<open>priority\<close> is
  truncated toward zero, and the priority sent is 5 when the truncated value is at most 0
  or above 10 and the truncated value otherwise; the priority sent is 5 when
  \<^verbatim>\<open>priority\<close> is absent or is a JSON value that is not a number. This holds on every
  platform, also when the truncated value does not fit \<^verbatim>\<open>int\<close>. (A Go \<^verbatim>\<open>int\<close>, which no
  JSON document decodes to, is taken as it is and clamped the same way.)
\<close>

theorem generic_priority:
  assumes "msgHandler p = Some h" and "rawBody ''message'' = Some (VString s)" and "s \<noteq> ''''"
  shows "(\<forall>q. rawBody ''priority'' = Some (VFloat64 q) \<longrightarrow>
            map Priority (sent (handleGenericWebhook pf p rawBody)) =
              [if trunc q \<le> 0 \<or> trunc q > 10 then 5 else trunc q]) \<and>
         (rawBody ''priority'' = None \<longrightarrow>
            map Priority (sent (handleGenericWebhook pf p rawBody)) = [5]) \<and>
         (\<forall>v. rawBody ''priority'' = Some v \<and> \<not> is_json_number v \<and> \<not> is_go_int v \<longrightarrow>
            map Priority (sent (handleGenericWebhook pf p rawBody)) = [5]) \<and>
         (\<forall>n. rawBody ''priority'' = Some (VInt n) \<longrightarrow>
            map Priority (sent (handleGenericWebhook pf p rawBody)) =
              [if n \<le> 0 \<or> n > 10 then 5 else n])"
proof -
  have f: "string_field rawBody ''message'' \<noteq> ''''"
    using assms(2,3) by (simp add: string_field_VString)
  have s: "map Priority (sent (handleGenericWebhook pf p rawBody)) =
      [if priority_field pf rawBody \<le> 0 \<or> priority_field pf rawBody > 10 then 5
       else priority_field pf rawBody]"
    using f assms(1) by (simp add: sent_generic)
  show ?thesis
  proof (intro conjI allI impI)
    fix q assume "rawBody ''priority'' = Some (VFloat64 q)"
    then have "priority_field pf rawBody = int_of_float64 pf q"
      by (rule priority_field_cases)
    then show "map Priority (sent (handleGenericWebhook pf p rawBody)) =
              [if trunc q \<le> 0 \<or> trunc q > 10 then 5 else trunc q]"
      unfolding s by (simp only: int_of_float64_clamp)
  next
    assume "rawBody ''priority'' = None"
    then have "priority_field pf rawBody = 0"
      by (rule priority_field_cases)
    then show "map Priority (sent (handleGenericWebhook pf p rawBody)) = [5]"
      unfolding s by simp
  next
    fix v assume "rawBody ''priority'' = Some v \<and> \<not> is_json_number v \<and> \<not> is_go_int v"
    then have "priority_field pf rawBody = 0"
      by (simp add: priority_field_cases)
    then show "map Priority (sent (handleGenericWebhook pf p rawBody)) = [5]"
      unfolding s by simp
  next
    fix n assume "rawBody ''priority'' = Some (VInt n)"
    then have "priority_field pf rawBody = n"
      by (rule priority_field_cases)
    then show "map Priority (sent (handleGenericWebhook pf p rawBody)) =
              [if n \<le> 0 \<or> n > 10 then 5 else n]"
      unfolding s by (simp only:)
  qed
qed

theorem generic_priority_witness:
  "msgHandler (test_plugin False) = Some (MockMessageHandler False) \<and>
   (\<forall>v. with_priority v ''message'' = Some (VString ''Test Message'')) \<and>
   ''Test Message'' \<noteq> '''' \<and>
   map Priority (sent (handleGenericWebhook amd64 (test_plugin False)
     (with_priority (VFloat64 7)))) = [7] \<and>
   map Priority (sent (handleGenericWebhook amd64 (test_plugin False)
     (with_priority (VFloat64 1)))) = [1] \<and>
   map Priority (sent (handleGenericWebhook amd64 (test_plugin False)
     (with_priority (VFloat64 10)))) = [10] \<and>
   map Priority (sent (handleGenericWebhook amd64 (test_plugin False)
     (with_priority (VFloat64 15)))) = [5] \<and>
   map Priority (sent (handleGenericWebhook amd64 (test_plugin False)
     (with_priority (VFloat64 0)))) = [5] \<and>
   map Priority (sent (handleGenericWebhook amd64 (test_plugin False)
     (with_priority (VString ''5'')))) = [5] \<and>
   map Priority (sent (handleGenericWebhook amd64 (test_plugin False) message_only)) = [5] \<and>
   map Priority (sent (handleGenericWebhook amd64 (test_plugin False)
     (with_priority (VFloat64 (79 / 10))))) = [7] \<and>
   map Priority (sent (handleGenericWebhook arm7 (test_plugin False)
     (with_priority (VFloat64 (- 5 / 2))))) = [5] \<and>
   map Priority (sent (handleGenericWebhook amd64 (test_plugin False)
     (with_priority (VFloat64 10000000000000000000)))) = [5]"
proof -
  have h: "msgHandler (test_plugin False) = Some (MockMessageHandler False)"
    by (simp add: test_plugin_def)
  have m: "with_priority v ''message'' = Some (VString ''Test Message'')" for v
    by (simp add: with_priority_def)
  have m0: "message_only ''message'' = Some (VString ''Test Message'')"
    by (simp add: message_only_def)
  have ne: "''Test Message'' \<noteq> ''''" by simp
  have p: "with_priority v ''priority'' = Some v" for v
    by (simp add: with_priority_def)
  have p0: "message_only ''priority'' = None"
    by (simp add: message_only_def)
  have g: "map Priority (sent (handleGenericWebhook pf (test_plugin False)
               (with_priority (VFloat64 q)))) =
             [if trunc q \<le> 0 \<or> trunc q > 10 then 5 else trunc q]" for q pf
    using generic_priority [where p = "test_plugin False"
        and rawBody = "with_priority (VFloat64 q)"
        and s = "''Test Message''" and pf = pf, OF h m ne] p [of "VFloat64 q"]
    by blast
  have g': "map Priority (sent (handleGenericWebhook amd64 (test_plugin False)
               (with_priority (VString ''5'')))) = [5]"
    using generic_priority [where p = "test_plugin False"
        and rawBody = "with_priority (VString ''5'')"
        and s = "''Test Message''" and pf = amd64, OF h m ne] p [of "VString ''5''"]
    by (simp add: is_json_number_def is_go_int_def)
  have t: "trunc (79 / 10) = 7" "trunc (- 5 / 2) = - 2"
    by code_simp+
  show ?thesis
    using h m ne g' t
      g [of amd64 7] g [of amd64 1] g [of amd64 10] g [of amd64 15] g [of amd64 0]
      generic_priority [where p = "test_plugin False" and rawBody = message_only
        and s = "''Test Message''" and pf = amd64, OF h m0 ne] p0
      g [of amd64 "79 / 10"] g [of arm7 "- 5 / 2"] g [of amd64 10000000000000000000]
    by (simp add: trunc_def is_json_number_def is_go_int_def)
qed

subsection \<open>The source entry of the extras\<close>

text \<open>
  C5. The statement that a notification of the generic path never carries a \<^verbatim>\<open>source\<close>
  entry, whatever the payload's \<^verbatim>\<open>extras\<close>, fails: the generic payload
  \<^verbatim>\<open>{"message": "Test Message", "extras": {"source": "elsewhere"}}\<close> is delivered with
  \<^verbatim>\<open>source\<close> in its extras.
\<close>

theorem generic_source_counterexample:
  "with_source_extras ''alerts'' = None \<and>
   length (sent (handleWebhookMessage amd64 (decoded_as with_source_extras)
                   (test_plugin False) (request_with None))) = 1 \<and>
   extras_lookup
     (Extras (hd (sent (handleWebhookMessage amd64 (decoded_as with_source_extras)
                         (test_plugin False) (request_with None)))))
     ''source'' = Some (VString ''elsewhere'')"
  by (simp add: handleWebhookMessage_def GetHeader_def request_with_def decoded_as_def
      with_source_extras_def sent_generic string_field_def assert_string_def assert_map_def
      test_plugin_def extras_lookup_def)

text \<open>
  C5, as the code has it. Every message sent on the Grafana path has the extras entry
  \<^verbatim>\<open>source\<close> = "grafana". Every message sent on the generic path carries the payload's
  \<^verbatim>\<open>extras\<close> object unchanged (the nil map when \<^verbatim>\<open>extras\<close> is absent or not an object),
  so it has a \<^verbatim>\<open>source\<close> entry exactly when that object has one.
\<close>

theorem metadata_source:
  "(\<forall>m \<in> set (sent (handleGrafanaWebhook p rawBody)).
      extras_lookup (Extras m) ''source'' = Some (VString ''grafana'')) \<and>
   (\<forall>m \<in> set (sent (handleGenericWebhook pf p rawBody)).
      Extras m = (case rawBody ''extras'' of Some (VMap e) \<Rightarrow> Some e | _ \<Rightarrow> None) \<and>
      extras_lookup (Extras m) ''source'' =
        (case rawBody ''extras'' of Some (VMap e) \<Rightarrow> e ''source'' | _ \<Rightarrow> None))"
proof (intro conjI ballI)
  fix m assume "m \<in> set (sent (handleGrafanaWebhook p rawBody))"
  then show "extras_lookup (Extras m) ''source'' = Some (VString ''grafana'')"
    by (simp add: sent_grafana)
next
  fix m assume "m \<in> set (sent (handleGenericWebhook pf p rawBody))"
  then have e: "Extras m = assert_map (rawBody ''extras'')"
    by (simp add: sent_generic_props)
  show "Extras m = (case rawBody ''extras'' of Some (VMap e) \<Rightarrow> Some e | _ \<Rightarrow> None)"
    unfolding e by (simp add: assert_map_def)
  show "extras_lookup (Extras m) ''source'' =
        (case rawBody ''extras'' of Some (VMap e) \<Rightarrow> e ''source'' | _ \<Rightarrow> None)"
    unfolding e by (simp add: assert_map_def extras_lookup_def split: option.splits iface.splits)
qed

theorem metadata_source_witness:
  "sent (handleGrafanaWebhook (test_plugin False) null_alerts) \<noteq> [] \<and>
   extras_lookup (Extras (hd (sent (handleGrafanaWebhook (test_plugin False) null_alerts))))
     ''source'' = Some (VString ''grafana'') \<and>
   sent (handleGenericWebhook amd64 (test_plugin False) message_only) \<noteq> [] \<and>
   extras_lookup
     (Extras (hd (sent (handleGenericWebhook amd64 (test_plugin False) message_only))))
     ''source'' = None \<and>
   sent (handleGenericWebhook amd64 (test_plugin False) with_source_extras) \<noteq> [] \<and>
   extras_lookup
     (Extras (hd (sent (handleGenericWebhook amd64 (test_plugin False) with_source_extras))))
     ''source'' = Some (VString ''elsewhere'')"
proof -
  have h: "msgHandler (test_plugin False) = Some (MockMessageHandler False)"
    by (simp add: test_plugin_def)
  have n1: "sent (handleGrafanaWebhook (test_plugin False) null_alerts) \<noteq> []"
    using sent_grafana_length [of "test_plugin False" null_alerts] h by auto
  have n2: "sent (handleGenericWebhook amd64 (test_plugin False) message_only) \<noteq> []"
    by (simp add: sent_generic h message_only_def string_field_def assert_string_def)
  have n3: "sent (handleGenericWebhook amd64 (test_plugin False) with_source_extras) \<noteq> []"
    by (simp add: sent_generic h with_source_extras_def string_field_def assert_string_def)
  have e2: "message_only ''extras'' = None"
    by (simp add: message_only_def)
  have e3: "with_source_extras ''extras'' = Some (VMap [''source'' \<mapsto> VString ''elsewhere''])"
    by (simp add: with_source_extras_def)
  show ?thesis
    using n1 n2 n3 e2 e3
      metadata_source [of "test_plugin False" null_alerts amd64]
      metadata_source [of "test_plugin False" message_only amd64]
      metadata_source [of "test_plugin False" with_source_extras amd64]
    by (simp add: hd_in_set extras_lookup_def)
qed

subsection \<open>What reaches SendMessage\<close>

text \<open>
  C6. Every message that \<^verbatim>\<open>handleWebhookMessage\<close> passes to \<^verbatim>\<open>SendMessage\<close>, on either
  path, has a priority between 1 and 10 and a non-empty body.
\<close>

theorem delivered_priority_and_body:
  "\<forall>m \<in> set (sent (handleWebhookMessage pf decode p c)).
     1 \<le> Priority m \<and> Priority m \<le> 10 \<and> Message m \<noteq> ''''"
proof
  fix m assume a: "m \<in> set (sent (handleWebhookMessage pf decode p c))"
  then consider rawBody where "m \<in> set (sent (handleGrafanaWebhook p rawBody))"
    | rawBody where "m \<in> set (sent (handleGenericWebhook pf p rawBody))"
    by (auto simp: handleWebhookMessage_def Let_def sent_reply
        split: if_splits sum.splits option.splits)
  then show "1 \<le> Priority m \<and> Priority m \<le> 10 \<and> Message m \<noteq> ''''"
  proof cases
    case 1
    from sent_grafana [OF this] show ?thesis by auto
  next
    case 2
    from sent_generic_props [OF this] show ?thesis by simp
  qed
qed

theorem delivered_priority_and_body_witness:
  "sent (handleWebhookMessage amd64 (decoded_as (with_priority (VFloat64 15)))
           (test_plugin False) (request_with None)) \<noteq> [] \<and>
   1 \<le> Priority (hd (sent (handleWebhookMessage amd64
           (decoded_as (with_priority (VFloat64 15))) (test_plugin False)
           (request_with None)))) \<and>
   Priority (hd (sent (handleWebhookMessage amd64
           (decoded_as (with_priority (VFloat64 15))) (test_plugin False)
           (request_with None)))) \<le> 10 \<and>
   Message (hd (sent (handleWebhookMessage amd64
           (decoded_as (with_priority (VFloat64 15))) (test_plugin False)
           (request_with None)))) \<noteq> '''' \<and>
   sent (handleWebhookMessage amd64 (decoded_as null_alerts)
           (test_plugin False) (request_with None)) \<noteq> [] \<and>
   1 \<le> Priority (hd (sent (handleWebhookMessage amd64 (decoded_as null_alerts)
           (test_plugin False) (request_with None)))) \<and>
   Priority (hd (sent (handleWebhookMessage amd64 (decoded_as null_alerts)
           (test_plugin False) (request_with None)))) \<le> 10 \<and>
   Message (hd (sent (handleWebhookMessage amd64 (decoded_as null_alerts)
           (test_plugin False) (request_with None)))) \<noteq> ''''"
proof -
  have h: "msgHandler (test_plugin False) = Some (MockMessageHandler False)"
    by (simp add: test_plugin_def)
  have n1: "sent (handleWebhookMessage amd64 (decoded_as (with_priority (VFloat64 15)))
           (test_plugin False) (request_with None)) \<noteq> []"
    by (simp add: handleWebhookMessage_def GetHeader_def request_with_def decoded_as_def
        sent_generic h with_priority_def string_field_def assert_string_def)
  have n2: "sent (handleWebhookMessage amd64 (decoded_as null_alerts)
           (test_plugin False) (request_with None)) \<noteq> []"
    using sent_grafana_length [of "test_plugin False" null_alerts] h
    by (auto simp: handleWebhookMessage_def GetHeader_def request_with_def decoded_as_def
        null_alerts_def)
  show ?thesis
    using n1 n2
      delivered_priority_and_body [of amd64 "decoded_as (with_priority (VFloat64 15))"
        "test_plugin False" "request_with None"]
      delivered_priority_and_body [of amd64 "decoded_as null_alerts"
        "test_plugin False" "request_with None"]
    by (simp add: hd_in_set)
qed

subsection \<open>Outcome of the delivery\<close>

text \<open>
  C7. The statement that a handler without a message handler answers 503 on both paths
  fails on the generic path: the payload \<^verbatim>\<open>{"title": "Title Only"}\<close> is answered 400,
  the missing message being checked before the message handler.
\<close>

theorem undelivered_without_handler_counterexample:
  "msgHandler bare_plugin = None \<and> title_only ''alerts'' = None \<and>
   status (resp (handleWebhookMessage amd64 (decoded_as title_only) bare_plugin
                   (request_with (Some ''application/json'')))) = StatusBadRequest \<and>
   status (resp (handleGenericWebhook amd64 bare_plugin title_only)) = StatusBadRequest"
  by (simp add: handleWebhookMessage_def GetHeader_def request_with_def decoded_as_def
      bare_plugin_def title_only_def generic_rejected string_field_def assert_string_def
      resp_reply)

text \<open>
  C7, as the code has it. For every payload on the Grafana path, and for every payload on
  the generic path whose \<^verbatim>\<open>message\<close> is a non-empty string: without a message handler
  the response is 503 and nothing is sent; with one, exactly one message is sent, and the
  response is 500 with the error's text under \<^verbatim>\<open>details\<close> when \<^verbatim>\<open>SendMessage\<close> returns
  an error, and 200 with \<^verbatim>\<open>success\<close> = true when it returns nil, with \<^verbatim>\<open>type\<close> =
  "grafana" on the Grafana path and no \<^verbatim>\<open>type\<close> on the generic one. Every other payload
  on the generic path (no \<^verbatim>\<open>message\<close>, one that is not a string, or the empty string) is
  answered 400 "Message field is required" with nothing sent, whether or not a message
  handler is set.
\<close>

theorem delivery_outcome:
  "(let G = handleGrafanaWebhook p rawBody in
     (msgHandler p = None \<longrightarrow>
        status (resp G) = StatusServiceUnavailable \<and> sent G = []) \<and>
     (\<forall>h. msgHandler p = Some h \<longrightarrow>
        length (sent G) = 1 \<and>
        (\<forall>e. h (hd (sent G)) = Some e \<longrightarrow>
           status (resp G) = StatusInternalServerError \<and>
           json (resp G) ''details'' = Some (VString e)) \<and>
        (h (hd (sent G)) = None \<longrightarrow>
           status (resp G) = StatusOK \<and>
           json (resp G) ''success'' = Some (VBool True) \<and>
           json (resp G) ''type'' = Some (VString ''grafana'')))) \<and>
   (\<forall>s. rawBody ''message'' = Some (VString s) \<and> s \<noteq> '''' \<longrightarrow>
     (let W = handleGenericWebhook pf p rawBody in
       (msgHandler p = None \<longrightarrow>
          status (resp W) = StatusServiceUnavailable \<and> sent W = []) \<and>
       (\<forall>h. msgHandler p = Some h \<longrightarrow>
          length (sent W) = 1 \<and>
          (\<forall>e. h (hd (sent W)) = Some e \<longrightarrow>
             status (resp W) = StatusInternalServerError \<and>
             json (resp W) ''details'' = Some (VString e)) \<and>
          (h (hd (sent W)) = None \<longrightarrow>
             status (resp W) = StatusOK \<and>
             json (resp W) ''success'' = Some (VBool True) \<and>
             json (resp W) ''type'' = None)))) \<and>
   ((\<forall>s. rawBody ''message'' = Some (VString s) \<longrightarrow> s = '''') \<longrightarrow>
      handleGenericWebhook pf p rawBody =
        reply StatusBadRequest [''error'' \<mapsto> VString ''Message field is required''] [])"
proof (intro conjI allI impI)
  obtain msg where g: "handleGrafanaWebhook p rawBody = forward_grafana p msg"
    using grafana_is_forward by blast
  show "let G = handleGrafanaWebhook p rawBody in
     (msgHandler p = None \<longrightarrow>
        status (resp G) = StatusServiceUnavailable \<and> sent G = []) \<and>
     (\<forall>h. msgHandler p = Some h \<longrightarrow>
        length (sent G) = 1 \<and>
        (\<forall>e. h (hd (sent G)) = Some e \<longrightarrow>
           status (resp G) = StatusInternalServerError \<and>
           json (resp G) ''details'' = Some (VString e)) \<and>
        (h (hd (sent G)) = None \<longrightarrow>
           status (resp G) = StatusOK \<and>
           json (resp G) ''success'' = Some (VBool True) \<and>
           json (resp G) ''type'' = Some (VString ''grafana'')))"
    unfolding Let_def g using forward_grafana_outcome [of p msg]
    by (auto simp: resp_reply sent_reply)
next
  fix s assume "rawBody ''message'' = Some (VString s) \<and> s \<noteq> ''''"
  then obtain msg where w: "handleGenericWebhook pf p rawBody = forward_generic p msg"
    using generic_is_forward by blast
  show "let W = handleGenericWebhook pf p rawBody in
       (msgHandler p = None \<longrightarrow>
          status (resp W) = StatusServiceUnavailable \<and> sent W = []) \<and>
       (\<forall>h. msgHandler p = Some h \<longrightarrow>
          length (sent W) = 1 \<and>
          (\<forall>e. h (hd (sent W)) = Some e \<longrightarrow>
             status (resp W) = StatusInternalServerError \<and>
             json (resp W) ''details'' = Some (VString e)) \<and>
          (h (hd (sent W)) = None \<longrightarrow>
             status (resp W) = StatusOK \<and>
             json (resp W) ''success'' = Some (VBool True) \<and>
             json (resp W) ''type'' = None))"
    unfolding Let_def w using forward_generic_outcome [of p msg]
    by (auto simp: resp_reply sent_reply)
next
  assume "\<forall>s. rawBody ''message'' = Some (VString s) \<longrightarrow> s = ''''"
  then have "string_field rawBody ''message'' = ''''"
    by (simp add: string_field_empty_iff)
  then show "handleGenericWebhook pf p rawBody =
        reply StatusBadRequest [''error'' \<mapsto> VString ''Message field is required''] []"
    by (rule generic_rejected)
qed

theorem delivery_outcome_witness:
  "msgHandler bare_plugin = None \<and>
   status (resp (handleGrafanaWebhook bare_plugin null_alerts)) = StatusServiceUnavailable \<and>
   sent (handleGrafanaWebhook bare_plugin null_alerts) = [] \<and>
   message_only ''message'' = Some (VString ''Test Message'') \<and>
   status (resp (handleGenericWebhook amd64 bare_plugin message_only))
     = StatusServiceUnavailable \<and>
   sent (handleGenericWebhook amd64 bare_plugin message_only) = [] \<and>
   msgHandler (test_plugin True) = Some (MockMessageHandler True) \<and>
   status (resp (handleGrafanaWebhook (test_plugin True) null_alerts))
     = StatusInternalServerError \<and>
   json (resp (handleGrafanaWebhook (test_plugin True) null_alerts)) ''details''
     = Some (VString ''assert.AnError general error for testing'') \<and>
   status (resp (handleGenericWebhook amd64 (test_plugin True) message_only))
     = StatusInternalServerError \<and>
   json (resp (handleGenericWebhook amd64 (test_plugin True) message_only)) ''details''
     = Some (VString ''assert.AnError general error for testing'') \<and>
   msgHandler (test_plugin False) = Some (MockMessageHandler False) \<and>
   status (resp (handleGrafanaWebhook (test_plugin False) null_alerts)) = StatusOK \<and>
   json (resp (handleGrafanaWebhook (test_plugin False) null_alerts)) ''success''
     = Some (VBool True) \<and>
   json (resp (handleGrafanaWebhook (test_plugin False) null_alerts)) ''type''
     = Some (VString ''grafana'') \<and>
   status (resp (handleGenericWebhook amd64 (test_plugin False) message_only)) = StatusOK \<and>
   json (resp (handleGenericWebhook amd64 (test_plugin False) message_only)) ''success''
     = Some (VBool True) \<and>
   json (resp (handleGenericWebhook amd64 (test_plugin False) message_only)) ''type'' = None \<and>
   title_only ''message'' = None \<and>
   handleGenericWebhook amd64 bare_plugin title_only =
     reply StatusBadRequest [''error'' \<mapsto> VString ''Message field is required''] [] \<and>
   handleGenericWebhook amd64 (test_plugin False) title_only =
     reply StatusBadRequest [''error'' \<mapsto> VString ''Message field is required''] [] \<and>
   empty_message ''message'' = Some (VString '''') \<and>
   handleGenericWebhook amd64 bare_plugin empty_message =
     reply StatusBadRequest [''error'' \<mapsto> VString ''Message field is required''] [] \<and>
   status (resp (handleGenericWebhook amd64 bare_plugin title_only)) = StatusBadRequest \<and>
   sent (handleGenericWebhook amd64 bare_plugin title_only) = []"
proof -
  have b: "msgHandler bare_plugin = None"
    by (simp add: bare_plugin_def)
  have t: "msgHandler (test_plugin True) = Some (MockMessageHandler True)"
    and f: "msgHandler (test_plugin False) = Some (MockMessageHandler False)"
    by (simp_all add: test_plugin_def)
  have m: "message_only ''message'' = Some (VString ''Test Message'')"
    by (simp add: message_only_def)
  have r: "MockMessageHandler True x = Some ''assert.AnError general error for testing''"
    "MockMessageHandler False x = None" for x
    by (simp_all add: MockMessageHandler_def)
  have n: "title_only ''message'' = None"
    by (simp add: title_only_def)
  have e: "empty_message ''message'' = Some (VString '''')"
    by (simp add: empty_message_def)
  have rej: "handleGenericWebhook amd64 bare_plugin title_only =
      reply StatusBadRequest [''error'' \<mapsto> VString ''Message field is required''] []"
    "handleGenericWebhook amd64 (test_plugin False) title_only =
      reply StatusBadRequest [''error'' \<mapsto> VString ''Message field is required''] []"
    "handleGenericWebhook amd64 bare_plugin empty_message =
      reply StatusBadRequest [''error'' \<mapsto> VString ''Message field is required''] []"
    using n e
      delivery_outcome [of bare_plugin title_only amd64]
      delivery_outcome [of "test_plugin False" title_only amd64]
      delivery_outcome [of bare_plugin empty_message amd64]
    by simp_all
  have rej': "status (resp (handleGenericWebhook amd64 bare_plugin title_only))
        = StatusBadRequest"
    "sent (handleGenericWebhook amd64 bare_plugin title_only) = []"
    unfolding rej by (simp_all add: resp_reply sent_reply)
  have acc: "status (resp (handleGrafanaWebhook bare_plugin null_alerts))
        = StatusServiceUnavailable \<and>
   sent (handleGrafanaWebhook bare_plugin null_alerts) = [] \<and>
   status (resp (handleGenericWebhook amd64 bare_plugin message_only))
     = StatusServiceUnavailable \<and>
   sent (handleGenericWebhook amd64 bare_plugin message_only) = [] \<and>
   status (resp (handleGrafanaWebhook (test_plugin True) null_alerts))
     = StatusInternalServerError \<and>
   json (resp (handleGrafanaWebhook (test_plugin True) null_alerts)) ''details''
     = Some (VString ''assert.AnError general error for testing'') \<and>
   status (resp (handleGenericWebhook amd64 (test_plugin True) message_only))
     = StatusInternalServerError \<and>
   json (resp (handleGenericWebhook amd64 (test_plugin True) message_only)) ''details''
     = Some (VString ''assert.AnError general error for testing'') \<and>
   status (resp (handleGrafanaWebhook (test_plugin False) null_alerts)) = StatusOK \<and>
   json (resp (handleGrafanaWebhook (test_plugin False) null_alerts)) ''success''
     = Some (VBool True) \<and>
   json (resp (handleGrafanaWebhook (test_plugin False) null_alerts)) ''type''
     = Some (VString ''grafana'') \<and>
   status (resp (handleGenericWebhook amd64 (test_plugin False) message_only)) = StatusOK \<and>
   json (resp (handleGenericWebhook amd64 (test_plugin False) message_only)) ''success''
     = Some (VBool True) \<and>
   json (resp (handleGenericWebhook amd64 (test_plugin False) message_only)) ''type'' = None"
    using b t f m r
      delivery_outcome [of bare_plugin null_alerts amd64]
      delivery_outcome [of bare_plugin message_only amd64]
      delivery_outcome [of "test_plugin True" null_alerts amd64]
      delivery_outcome [of "test_plugin True" message_only amd64]
      delivery_outcome [of "test_plugin False" null_alerts amd64]
      delivery_outcome [of "test_plugin False" message_only amd64]
    by (simp add: Let_def)
  show ?thesis
    using b t f m n e rej rej' acc by blast
qed

subsection \<open>The Content-Type check\<close>

text \<open>
  C8. The statement that every request whose Content-Type header is present and is not
  exactly "application/json" is answered 400 fails for a header with the empty value:
  the request is decoded and delivered like one without the header.
\<close>

theorem empty_content_type_counterexample:
  "ContentType (request_with (Some '''')) = Some '''' \<and>
   status (resp (handleWebhookMessage amd64 (decoded_as message_only) (test_plugin False)
                   (request_with (Some '''')))) = StatusOK \<and>
   map Message (sent (handleWebhookMessage amd64 (decoded_as message_only) (test_plugin False)
                        (request_with (Some '''')))) = [''Test Message'']"
  by (simp add: handleWebhookMessage_def GetHeader_def request_with_def decoded_as_def
      message_only_def generic_accepted sent_generic string_field_def assert_string_def
      test_plugin_def MockMessageHandler_def forward_generic_def resp_reply sent_reply)

text \<open>
  C8, as the code has it. A request whose Content-Type header has a non-empty value other
  than exactly "application/json" is answered 400 "Content-Type must be application/json"
  whatever the decoder and the body are, and nothing is sent. A request without the header,
  or with the header's value empty, is decoded, and the result of decoding decides the
  outcome.
\<close>

theorem content_type_gate:
  "(\<forall>v. ContentType c = Some v \<and> v \<noteq> ''application/json'' \<and> v \<noteq> '''' \<longrightarrow>
      handleWebhookMessage pf decode p c =
        reply StatusBadRequest
          [''error'' \<mapsto> VString ''Content-Type must be application/json''] []) \<and>
   (ContentType c = None \<or> ContentType c = Some '''' \<longrightarrow>
      handleWebhookMessage pf decode p c =
        (case decode (Body c) of
           Inl err \<Rightarrow>
             reply StatusBadRequest
               [''error'' \<mapsto> VString ''Invalid JSON payload'', ''details'' \<mapsto> VString err] []
         | Inr None \<Rightarrow> reply StatusBadRequest [''error'' \<mapsto> VString ''Empty request body''] []
         | Inr (Some rawBody) \<Rightarrow>
             if rawBody ''alerts'' \<noteq> None then handleGrafanaWebhook p rawBody
             else handleGenericWebhook pf p rawBody))"
  by (auto simp: handleWebhookMessage_def GetHeader_def Let_def)

theorem content_type_gate_witness:
  "ContentType (request_with (Some ''application/json; charset=utf-8''))
     = Some ''application/json; charset=utf-8'' \<and>
   ''application/json; charset=utf-8'' \<noteq> ''application/json'' \<and>
   ''application/json; charset=utf-8'' \<noteq> '''' \<and>
   handleWebhookMessage amd64 (decoded_as message_only) (test_plugin False)
       (request_with (Some ''application/json; charset=utf-8'')) =
     reply StatusBadRequest
       [''error'' \<mapsto> VString ''Content-Type must be application/json''] [] \<and>
   ContentType (request_with None) = None \<and>
   handleWebhookMessage amd64 undecodable (test_plugin False) (request_with None) =
     reply StatusBadRequest
       [''error'' \<mapsto> VString ''Invalid JSON payload'',
        ''details'' \<mapsto> VString ''invalid character''] [] \<and>
   handleWebhookMessage amd64 (decoded_as message_only) (test_plugin False) (request_with None) =
     handleGenericWebhook amd64 (test_plugin False) message_only"
proof -
  have c1: "ContentType (request_with (Some ''application/json; charset=utf-8''))
     = Some ''application/json; charset=utf-8''"
    and c2: "ContentType (request_with None) = None"
    by (simp_all add: request_with_def)
  have a: "message_only ''alerts'' = None"
    by (simp add: message_only_def)
  show ?thesis
    using c1 c2 a
      content_type_gate [of "request_with (Some ''application/json; charset=utf-8'')" amd64
        "decoded_as message_only" "test_plugin False"]
      content_type_gate [of "request_with None" amd64 undecodable "test_plugin False"]
      content_type_gate [of "request_with None" amd64 "decoded_as message_only"
        "test_plugin False"]
    by (simp add: undecodable_def decoded_as_def)
qed

subsection \<open>An empty message\<close>

text \<open>
  C9. On the generic path a payload whose \<^verbatim>\<open>message\<close> is the empty string is answered
  exactly as the same payload without the key \<^verbatim>\<open>message\<close>: 400 "Message field is
  required", and nothing is sent.
\<close>

theorem generic_empty_message_rejected:
  assumes "rawBody ''message'' = Some (VString '''')"
  shows "handleGenericWebhook pf p rawBody =
           handleGenericWebhook pf p (rawBody(''message'' := None)) \<and>
         resp (handleGenericWebhook pf p rawBody) =
           \<lparr>status = StatusBadRequest,
            json = [''error'' \<mapsto> VString ''Message field is required'']\<rparr> \<and>
         sent (handleGenericWebhook pf p rawBody) = []"
proof -
  have "string_field rawBody ''message'' = ''''"
    using assms by (simp add: string_field_VString)
  moreover have "string_field (rawBody(''message'' := None)) ''message'' = ''''"
    by (simp add: string_field_def assert_string_None)
  ultimately show ?thesis
    by (simp add: generic_rejected sent_reply resp_reply)
qed

theorem generic_empty_message_rejected_witness:
  "empty_message ''message'' = Some (VString '''') \<and>
   handleGenericWebhook amd64 (test_plugin False) empty_message =
     handleGenericWebhook amd64 (test_plugin False) (empty_message(''message'' := None)) \<and>
   resp (handleGenericWebhook amd64 (test_plugin False) empty_message) =
     \<lparr>status = StatusBadRequest,
      json = [''error'' \<mapsto> VString ''Message field is required'']\<rparr> \<and>
   sent (handleGenericWebhook amd64 (test_plugin False) empty_message) = []"
proof -
  have m: "empty_message ''message'' = Some (VString '''')"
    by (simp add: empty_message_def)
  show ?thesis
    using m generic_empty_message_rejected [where rawBody = empty_message and pf = amd64
        and p = "test_plugin False", OF m]
    by blast
qed

subsection \<open>The Grafana message depends on seven keys\<close>

text \<open>
  C10. The outcome of \<^verbatim>\<open>handleGrafanaWebhook\<close>, so also the message it sends (title,
  body, priority, extras), is the same for any two payloads that agree on the keys
  \<^verbatim>\<open>title\<close>, \<^verbatim>\<open>message\<close>, \<^verbatim>\<open>status\<close>, \<^verbatim>\<open>state\<close>, \<^verbatim>\<open>externalURL\<close>,
  \<^verbatim>\<open>dashboardURL\<close> and \<^verbatim>\<open>silenceURL\<close>, whatever \<^verbatim>\<open>alerts\<close> and the other keys hold.
\<close>

theorem grafana_depends_on_seven_keys:
  assumes "\<forall>k \<in> set [''title'', ''message'', ''status'', ''state'', ''externalURL'',
                       ''dashboardURL'', ''silenceURL'']. r1 k = r2 k"
  shows "handleGrafanaWebhook p r1 = handleGrafanaWebhook p r2"
proof -
  have "string_field r1 ''title'' = string_field r2 ''title''"
    "string_field r1 ''message'' = string_field r2 ''message''"
    "string_field r1 ''status'' = string_field r2 ''status''"
    "string_field r1 ''state'' = string_field r2 ''state''"
    "copy_url r1 ''externalURL'' = copy_url r2 ''externalURL''"
    "copy_url r1 ''dashboardURL'' = copy_url r2 ''dashboardURL''"
    "copy_url r1 ''silenceURL'' = copy_url r2 ''silenceURL''"
    using assms by (simp_all add: string_field_def copy_url_def fun_eq_iff)
  then show ?thesis
    unfolding handleGrafanaWebhook_def by (simp only:)
qed

theorem grafana_depends_on_seven_keys_witness:
  "(grafana_with ''firing'' ''alerting'' (VSlice [])) ''alerts'' \<noteq> grafana_extended ''alerts'' \<and>
   (grafana_with ''firing'' ''alerting'' (VSlice [])) ''receiver''
      \<noteq> grafana_extended ''receiver'' \<and>
   handleGrafanaWebhook (test_plugin False) (grafana_with ''firing'' ''alerting'' (VSlice []))
     = handleGrafanaWebhook (test_plugin False) grafana_extended \<and>
   length (sent (handleGrafanaWebhook (test_plugin False) grafana_extended)) = 1"
proof -
  have a: "\<forall>k \<in> set [''title'', ''message'', ''status'', ''state'', ''externalURL'',
                       ''dashboardURL'', ''silenceURL''].
             (grafana_with ''firing'' ''alerting'' (VSlice [])) k = grafana_extended k"
    by (simp add: grafana_with_def grafana_extended_def)
  have h: "msgHandler (test_plugin False) = Some (MockMessageHandler False)"
    by (simp add: test_plugin_def)
  have d: "(grafana_with ''firing'' ''alerting'' (VSlice [])) ''alerts''
             \<noteq> grafana_extended ''alerts''"
    "(grafana_with ''firing'' ''alerting'' (VSlice [])) ''receiver''
             \<noteq> grafana_extended ''receiver''"
    by (simp_all add: grafana_with_def grafana_extended_def)
  have e: "handleGrafanaWebhook (test_plugin False)
             (grafana_with ''firing'' ''alerting'' (VSlice []))
           = handleGrafanaWebhook (test_plugin False) grafana_extended"
    by (rule grafana_depends_on_seven_keys [OF a])
  have l: "length (sent (handleGrafanaWebhook (test_plugin False) grafana_extended)) = 1"
    using sent_grafana_length [of "test_plugin False" grafana_extended] h by simp
  show ?thesis
    using d e l by blast
qed

end
